theory Spec2Isabelle
  imports Complex_Main
begin

section \<open>JavaScript values, errors and JSON\<close>

text \<open>
  The scripts \<^verbatim>\<open>scripts/paymaster.ts\<close> and \<^verbatim>\<open>scripts/collection.ts\<close> are glue around
  three libraries: Node's \<^verbatim>\<open>fs\<close> and \<^verbatim>\<open>path\<close>, \<^verbatim>\<open>JSON\<close>, and the Hardhat/ethers provider.
  The values that cross these boundaries are JavaScript values.  A number is a finite value
  (every finite double is a rational), \<^verbatim>\<open>NaN\<close>, or one of the two infinities: \<^verbatim>\<open>parseInt\<close>
  returns \<^verbatim>\<open>Infinity\<close> on a digit string that is too long for a double.
\<close>

datatype number = Num rat | NaN | Infinity | NegInfinity

datatype jsval =
    JUndefined
  | JNull
  | JBool bool
  | JNum number
  | JStr string
  | JArr "jsval list"
  | JObj "(string \<times> jsval) list"

text \<open>A thrown value: the constructor is the JavaScript error class, the argument its message.\<close>

datatype error = Error string | TypeError string | SyntaxError string

fun message :: "error \<Rightarrow> string" where
  "message (Error m) = m"
| "message (TypeError m) = m"
| "message (SyntaxError m) = m"

text \<open>\<^verbatim>\<open>!v\<close> is \<^verbatim>\<open>true\<close> exactly on the falsy values.\<close>

fun truthy :: "jsval \<Rightarrow> bool" where
  "truthy JUndefined = False"
| "truthy JNull = False"
| "truthy (JBool b) = b"
| "truthy (JNum (Num n)) = (n \<noteq> 0)"
| "truthy (JNum NaN) = False"
| "truthy (JNum Infinity) = True"
| "truthy (JNum NegInfinity) = True"
| "truthy (JStr s) = (s \<noteq> [])"
| "truthy (JArr xs) = True"
| "truthy (JObj ps) = True"

text \<open>
  A parameter typed \<^verbatim>\<open>string\<close> or \<^verbatim>\<open>number\<close> that may be absent at run time is an option:
  \<open>None\<close> is \<^verbatim>\<open>undefined\<close>.
\<close>

definition of_string :: "string option \<Rightarrow> jsval" where
  "of_string s = (case s of None \<Rightarrow> JUndefined | Some t \<Rightarrow> JStr t)"

definition of_number :: "number option \<Rightarrow> jsval" where
  "of_number n = (case n of None \<Rightarrow> JUndefined | Some k \<Rightarrow> JNum k)"

text \<open>
  \<^verbatim>\<open>JSON.stringify\<close> followed by \<^verbatim>\<open>JSON.parse\<close>: a property whose value is \<^verbatim>\<open>undefined\<close> is
  dropped; \<^verbatim>\<open>undefined\<close> inside an array, \<^verbatim>\<open>NaN\<close> and the infinities become \<^verbatim>\<open>null\<close>.  The text between the
  two (indentation, escapes) is not represented: a file holds the JSON document its text
  denotes, or text that is not JSON.  Every call of \<^verbatim>\<open>JSON.stringify\<close> in the scripts
  passes an object literal, so the top-level \<^verbatim>\<open>undefined\<close> case is the array-element one.
\<close>

fun json_value :: "jsval \<Rightarrow> jsval" where
  "json_value JUndefined = JNull"
| "json_value JNull = JNull"
| "json_value (JBool b) = JBool b"
| "json_value (JNum (Num n)) = JNum (Num n)"
| "json_value (JNum NaN) = JNull"
| "json_value (JNum Infinity) = JNull"
| "json_value (JNum NegInfinity) = JNull"
| "json_value (JStr s) = JStr s"
| "json_value (JArr xs) = JArr (map json_value xs)"
| "json_value (JObj ps) =
     JObj (map (\<lambda>p. (fst p, json_value (snd p))) (filter (\<lambda>p. snd p \<noteq> JUndefined) ps))"

datatype contents = JsonText jsval | OtherText string

definition JSON_stringify :: "jsval \<Rightarrow> contents" where
  "JSON_stringify v = JsonText (json_value v)"

definition JSON_parse :: "contents \<Rightarrow> error + jsval" where
  "JSON_parse t =
     (case t of
        JsonText v \<Rightarrow> Inr v
      | OtherText s \<Rightarrow> Inl (SyntaxError ''Unexpected token in JSON''))"

section \<open>Node's \<^verbatim>\<open>path.join\<close> (POSIX)\<close>

text \<open>
  \<^verbatim>\<open>join(...args)\<close> concatenates the non-empty arguments with \<^verbatim>\<open>/\<close> and normalizes the
  result: empty and \<^verbatim>\<open>.\<close> segments disappear, a \<^verbatim>\<open>..\<close> segment removes the segment before
  it (or stays, in a relative path that has nothing left to remove), a trailing separator is
  kept.  The record paths are built with it, so a slash inside a symbol matters.
\<close>

fun splitSlash :: "string \<Rightarrow> string list" where
  "splitSlash [] = [] # []"
| "splitSlash (c # cs) =
     (if c = CHR ''/'' then [] # splitSlash cs
      else (case splitSlash cs of
              [] \<Rightarrow> [c] # []
            | s # ss \<Rightarrow> (c # s) # ss))"

fun joinSlash :: "string list \<Rightarrow> string" where
  "joinSlash [] = []"
| "joinSlash [s] = s"
| "joinSlash (s # t # ss) = s @ CHR ''/'' # joinSlash (t # ss)"

definition normalizeStep :: "bool \<Rightarrow> string list \<Rightarrow> string \<Rightarrow> string list" where
  "normalizeStep allowAboveRoot res seg =
     (if seg = [] \<or> seg = ''.'' then res
      else if seg = ''..'' then
        (if res \<noteq> [] \<and> last res \<noteq> ''..'' then butlast res
         else if allowAboveRoot then res @ [''..'']
         else res)
      else res @ [seg])"

definition normalizeString :: "bool \<Rightarrow> string list \<Rightarrow> string list" where
  "normalizeString allowAboveRoot segs = foldl (normalizeStep allowAboveRoot) [] segs"

definition normalize :: "string \<Rightarrow> string" where
  "normalize path =
     (if path = [] then ''.''
      else
        (let isAbsolute = (hd path = CHR ''/'');
             trailingSeparator = (last path = CHR ''/'');
             p = joinSlash (normalizeString (\<not> isAbsolute) (splitSlash path))
         in if p = [] then (if isAbsolute then ''/'' else if trailingSeparator then ''./'' else ''.'')
            else (if isAbsolute then ''/'' else []) @ p @ (if trailingSeparator then ''/'' else [])))"

definition join :: "string list \<Rightarrow> string" where
  "join args =
     (let joined = joinSlash (filter (\<lambda>a. a \<noteq> []) args)
      in if joined = [] then ''.'' else normalize joined)"

section \<open>The environment: files, provider, configuration\<close>

text \<open>
  Everything the scripts do outside their own process is an event.  \<open>Create\<close> stands for
  the three awaited calls \<^verbatim>\<open>getContractFactory(name)\<close>, \<^verbatim>\<open>factory.deploy(...args)\<close> and
  \<^verbatim>\<open>.deployed()\<close>, which the scripts never separate; \<open>EnableContract\<close> for
  \<^verbatim>\<open>paymaster.enableContract(address)\<close> and the \<^verbatim>\<open>wait()\<close> on its transaction, which share one
  \<^verbatim>\<open>try\<close> block; \<open>RunVerify\<close> for \<^verbatim>\<open>hre.run("verify:verify", ...)\<close>; \<open>SetTimeout\<close> for the
  awaited timer.
\<close>

datatype event =
    GetSigners
  | Create string "jsval list"
  | EnableContract jsval string
  | RunVerify jsval jsval
  | SetTimeout nat

record network_info =
  RELAY_HUB_ADDRESS :: "string option"
  GSN_TRUSTED_FORWARDER_ADDRESS :: "string option"

text \<open>
  The Hardhat runtime environment as the scripts use it: the network name, the
  \<^verbatim>\<open>paymasterInfo\<close> table of the configuration, and the provider.  The provider is not code of
  the scripts: \<open>run_ext\<close> and \<open>create_ext\<close> give the outcome of a call from the calls made so
  far, so that the same call may fail once and succeed later.  \<open>dirname\<close> is the module
  constant \<^verbatim>\<open>__dirname\<close>.  \<open>write_ext\<close> is the file system's answer to a write at a
  path: \<^verbatim>\<open>writeFileSync\<close> throws where the directory is missing or the name is too long.
\<close>

record hre =
  network_name :: string
  paymasterInfo :: "string \<rightharpoonup> network_info"
  dirname :: string
  run_ext :: "event list \<Rightarrow> event \<Rightarrow> error option"
  create_ext :: "event list \<Rightarrow> string \<Rightarrow> jsval list \<Rightarrow> error + string"
  write_ext :: "string \<Rightarrow> error option"

record world =
  fs :: "string \<rightharpoonup> contents"
  log :: "event list"

definition external :: "hre \<Rightarrow> event \<Rightarrow> world \<Rightarrow> error option \<times> world" where
  "external h ev w = (run_ext h (log w) ev, w\<lparr>log := log w @ [ev]\<rparr>)"

definition create_contract ::
  "hre \<Rightarrow> string \<Rightarrow> jsval list \<Rightarrow> world \<Rightarrow> (error + string) \<times> world" where
  "create_contract h name args w =
     (create_ext h (log w) name args, w\<lparr>log := log w @ [Create name args]\<rparr>)"

definition setTimeout :: "nat \<Rightarrow> world \<Rightarrow> world" where
  "setTimeout ms w = w\<lparr>log := log w @ [SetTimeout ms]\<rparr>"

definition existsSync :: "world \<Rightarrow> string \<Rightarrow> bool" where
  "existsSync w path = (fs w path \<noteq> None)"

definition readFileSync :: "world \<Rightarrow> string \<Rightarrow> error + contents" where
  "readFileSync w path =
     (case fs w path of
        None \<Rightarrow> Inl (Error ''ENOENT: no such file or directory'')
      | Some c \<Rightarrow> Inr c)"

definition writeFileSync ::
  "hre \<Rightarrow> string \<Rightarrow> contents \<Rightarrow> world \<Rightarrow> error option \<times> world" where
  "writeFileSync h path c w =
     (case write_ext h path of
        Some e \<Rightarrow> (Some e, w)
      | None \<Rightarrow> (None, w\<lparr>fs := (fs w)(path \<mapsto> c)\<rparr>))"

text \<open>
  Reading a property whose name is not an index or a built-in (\<^verbatim>\<open>address\<close>,
  \<^verbatim>\<open>constructorArguments\<close>): \<^verbatim>\<open>null\<close> and \<^verbatim>\<open>undefined\<close> throw, an object answers from its
  properties, every other value has no such property.
\<close>

definition get_prop :: "jsval \<Rightarrow> string \<Rightarrow> error + jsval" where
  "get_prop v k =
     (case v of
        JUndefined \<Rightarrow> Inl (TypeError ''Cannot read properties of undefined'')
      | JNull \<Rightarrow> Inl (TypeError ''Cannot read properties of null'')
      | JObj ps \<Rightarrow> (case map_of ps k of None \<Rightarrow> Inr JUndefined | Some x \<Rightarrow> Inr x)
      | _ \<Rightarrow> Inr JUndefined)"

text \<open>Array destructuring \<^verbatim>\<open>[a, b, ...] = v\<close>: \<open>v\<close> must be iterable; a missing element is \<^verbatim>\<open>undefined\<close>.\<close>

definition iterate :: "jsval \<Rightarrow> error + jsval list" where
  "iterate v =
     (case v of
        JArr xs \<Rightarrow> Inr xs
      | JStr s \<Rightarrow> Inr (map (\<lambda>c. JStr [c]) s)
      | _ \<Rightarrow> Inl (TypeError ''object is not iterable''))"

definition element :: "jsval list \<Rightarrow> nat \<Rightarrow> jsval" where
  "element xs i = (if i < length xs then xs ! i else JUndefined)"

text \<open>A template literal prints an absent string as \<^verbatim>\<open>undefined\<close>.\<close>

definition template :: "string option \<Rightarrow> string" where
  "template s = (case s of None \<Rightarrow> ''undefined'' | Some t \<Rightarrow> t)"

fun startsWith :: "string \<Rightarrow> string \<Rightarrow> bool" where
  "startsWith s [] = True"
| "startsWith [] (c # cs) = False"
| "startsWith (d # ds) (c # cs) = (d = c \<and> startsWith ds cs)"

fun includes_str :: "string \<Rightarrow> string \<Rightarrow> bool" where
  "includes_str [] t = (t = [])"
| "includes_str (c # cs) t = (startsWith (c # cs) t \<or> includes_str cs t)"

text \<open>A contract handle; \<^verbatim>\<open>connect\<close> keeps the address it is given.\<close>

datatype contract = Contract jsval

fun address_of :: "contract \<Rightarrow> jsval" where
  "address_of (Contract a) = a"

section \<open>\<^verbatim>\<open>scripts/paymaster.ts\<close>\<close>

record deployment =
  address :: string
  constructorArguments :: "jsval list"

definition output_json :: "deployment \<Rightarrow> jsval" where
  "output_json out =
     JObj [(''address'', JStr (address out)),
           (''constructorArguments'', JArr (constructorArguments out))]"

definition paymaster_deploy ::
  "hre option \<Rightarrow> string option \<Rightarrow> string option \<Rightarrow> world \<Rightarrow> (error + deployment) \<times> world" where
  "paymaster_deploy H relay forwarder w =
     (case H of
        None \<Rightarrow> (Inl (Error ''hre is required''), w)
      | Some h \<Rightarrow>
          if \<not> truthy (of_string relay) then (Inl (Error ''Relay hub address is required''), w)
          else if \<not> truthy (of_string forwarder) then
            (Inl (Error ''GSN trusted forwarder address is required''), w)
          else
            (case create_contract h ''NovelPaymaster'' [of_string relay, of_string forwarder] w of
               (Inl e, w1) \<Rightarrow> (Inl e, w1)
             | (Inr a, w1) \<Rightarrow>
                 (Inr \<lparr>address = a,
                       constructorArguments = [of_string relay, of_string forwarder]\<rparr>, w1)))"

definition paymaster_getPath :: "hre \<Rightarrow> string" where
  "paymaster_getPath h = join [dirname h, ''..'', ''paymaster.'' @ network_name h @ ''.json'']"

definition paymaster_get :: "hre \<Rightarrow> string option \<Rightarrow> world \<Rightarrow> error + contract" where
  "paymaster_get h addr w =
     (case
        (if \<not> truthy (of_string addr) then
           (let path = paymaster_getPath h in
            if \<not> existsSync w path then
              Inl (Error ''Could not find paymaster.json - try running hardhat deploy-paymaster'')
            else
              (case readFileSync w path of
                 Inl e \<Rightarrow> Inl e
               | Inr json \<Rightarrow>
                   (case JSON_parse json of
                      Inl e \<Rightarrow> Inl e
                    | Inr obj \<Rightarrow>
                        (case get_prop obj ''address'' of
                           Inl e \<Rightarrow> Inl e
                         | Inr a \<Rightarrow>
                             if \<not> truthy a then
                               Inl (Error ''Could not read paymaster.json - try running hardhat deploy-paymaster'')
                             else Inr a))))
         else Inr (of_string addr))
      of
        Inl e \<Rightarrow> Inl e
      | Inr a \<Rightarrow>
          if \<not> truthy a then Inl (Error ''Paymaster address is required'')
          else Inr (Contract a))"

definition paymaster_verify ::
  "hre \<Rightarrow> jsval \<Rightarrow> jsval \<Rightarrow> world \<Rightarrow> (error + unit) \<times> world" where
  "paymaster_verify h addr args w =
     (case iterate args of
        Inl e \<Rightarrow> (Inl e, w)
      | Inr xs \<Rightarrow>
          if \<not> truthy (element xs 0) then (Inl (Error ''Relay hub address is required''), w)
          else if \<not> truthy (element xs 1) then
            (Inl (Error ''GSN trusted forwarder address is required''), w)
          else
            (case external h (RunVerify addr args) w of
               (None, w1) \<Rightarrow> (Inr (), w1)
             | (Some e, w1) \<Rightarrow>
                 if includes_str (message e) ''Reason: Already Verified'' then (Inr (), w1)
                 else (Inl e, w1)))"

text \<open>The action of the task \<^verbatim>\<open>deploy-paymaster\<close>; a failed verification is only warned about.\<close>

definition deploy_paymaster_task ::
  "hre \<Rightarrow> string option \<Rightarrow> world \<Rightarrow> (error + unit) \<times> world" where
  "deploy_paymaster_task h doVerify w =
     (case paymasterInfo h (network_name h) of
        None \<Rightarrow> (Inl (TypeError ''Cannot read properties of undefined''), w)
      | Some info \<Rightarrow>
          (case paymaster_deploy (Some h) (RELAY_HUB_ADDRESS info)
                  (GSN_TRUSTED_FORWARDER_ADDRESS info) w of
             (Inl e, w1) \<Rightarrow> (Inl e, w1)
           | (Inr out, w1) \<Rightarrow>
               (case writeFileSync h (paymaster_getPath h)
                       (JSON_stringify (output_json out)) w1 of
                  (Some e, w2) \<Rightarrow> (Inl e, w2)
                | (None, w2) \<Rightarrow>
                    if truthy (of_string doVerify) then
                      (case paymaster_verify h (JStr (address out))
                              (JArr (constructorArguments out)) w2 of
                         (Inl e, w3) \<Rightarrow> (Inr (), w3)
                       | (Inr u, w3) \<Rightarrow> (Inr (), w3))
                    else (Inr (), w2))))"

section \<open>\<^verbatim>\<open>scripts/collection.ts\<close>\<close>

record collection_args =
  collectionName :: "string option"
  collectionSymbol :: "string option"
  collectionSupplyCap :: "number option"
  contractMetadataUri :: "string option"
  metadataProofHash :: "string option"
  paymaster :: "contract option"
  forwarderAddress :: "string option"

definition collection_getPath :: "hre \<Rightarrow> string \<Rightarrow> string \<Rightarrow> string" where
  "collection_getPath h symbol addr =
     join [dirname h, ''..'',
           ''collection.'' @ symbol @ ''.'' @ addr @ ''.'' @ network_name h @ ''.json'']"

text \<open>Lines 53 to 56: without a paymaster handle, the recorded paymaster is loaded and connected.\<close>

definition resolve_paymaster ::
  "hre \<Rightarrow> contract option \<Rightarrow> world \<Rightarrow> (error + contract) \<times> world" where
  "resolve_paymaster h pm w =
     (case pm of
        Some c \<Rightarrow> (Inr c, w)
      | None \<Rightarrow>
          (case paymaster_get h None w of
             Inl e \<Rightarrow> (Inl e, w)
           | Inr c \<Rightarrow>
               (case external h GetSigners w of
                  (Some e, w1) \<Rightarrow> (Inl e, w1)
                | (None, w1) \<Rightarrow> (Inr c, w1))))"

text \<open>Lines 57 to 59: without a forwarder address, the configuration's one is taken.\<close>

definition resolve_forwarder :: "hre \<Rightarrow> string option \<Rightarrow> error + string option" where
  "resolve_forwarder h fa =
     (if \<not> truthy (of_string fa) then
        (case paymasterInfo h (network_name h) of
           None \<Rightarrow> Inl (TypeError ''Cannot read properties of undefined'')
         | Some info \<Rightarrow> Inr (GSN_TRUSTED_FORWARDER_ADDRESS info))
      else Inr fa)"

text \<open>The default of the optional parameter, line 35.\<close>

definition default_hash :: "string option \<Rightarrow> string" where
  "default_hash mph = (case mph of None \<Rightarrow> [] | Some s \<Rightarrow> s)"

definition collection_constructorArguments ::
  "collection_args \<Rightarrow> string option \<Rightarrow> jsval list" where
  "collection_constructorArguments a fa =
     [of_string (collectionName a),
      of_string (collectionSymbol a),
      of_number (collectionSupplyCap a),
      JStr (default_hash (metadataProofHash a)),
      of_string (contractMetadataUri a),
      of_string fa]"

definition outputObj :: "collection_args \<Rightarrow> string option \<Rightarrow> string \<Rightarrow> jsval" where
  "outputObj a fa addr =
     JObj [(''address'', JStr addr),
           (''collectionName'', of_string (collectionName a)),
           (''collectionSymbol'', of_string (collectionSymbol a)),
           (''collectionSupplyCap'', of_number (collectionSupplyCap a)),
           (''metadataProofHash'', JStr (default_hash (metadataProofHash a))),
           (''contractMetadataUri'', of_string (contractMetadataUri a)),
           (''forwarderAddress'', of_string fa),
           (''constructorArguments'', JArr (collection_constructorArguments a fa))]"

text \<open>
  Lines 107 to 121, the loop \<^verbatim>\<open>for (let c = 1; c < 2; c++)\<close> with its \<^verbatim>\<open>try\<close>/\<^verbatim>\<open>catch\<close>: the
  argument \<open>c\<close> is the loop counter.
\<close>

function enable_loop ::
  "hre \<Rightarrow> contract \<Rightarrow> string \<Rightarrow> nat \<Rightarrow> world \<Rightarrow> (error + unit) \<times> world" where
  "enable_loop h pm addr c w =
     (if c < 2 then
        (case external h (EnableContract (address_of pm) addr) w of
           (None, w1) \<Rightarrow> enable_loop h pm addr (c + 1) w1
         | (Some e, w1) \<Rightarrow>
             if c = 5 then (Inl e, w1)
             else enable_loop h pm addr (c + 1) (setTimeout (c * 1000) w1))
      else (Inr (), w))"
  by pat_completeness auto
termination
  by (relation "measure (\<lambda>(h, pm, addr, c, w). 2 - c)") auto

declare enable_loop.simps [simp del]

definition collection_deploy ::
  "hre option \<Rightarrow> collection_args \<Rightarrow> world \<Rightarrow> (error + string \<times> contract) \<times> world" where
  "collection_deploy H a w =
     (case H of
        None \<Rightarrow> (Inl (Error ''hre is required''), w)
      | Some h \<Rightarrow>
          if \<not> truthy (of_string (collectionSymbol a)) then
            (Inl (Error ''collectionSymbol is required''), w)
          else if \<not> truthy (of_number (collectionSupplyCap a)) then
            (Inl (Error ''collectionSupplyCap is required''), w)
          else if \<not> truthy (of_string (contractMetadataUri a)) then
            (Inl (Error ''contractMetadataUri is required''), w)
          else
            (case resolve_paymaster h (paymaster a) w of
               (Inl e, w1) \<Rightarrow> (Inl e, w1)
             | (Inr pm, w1) \<Rightarrow>
                 (case resolve_forwarder h (forwarderAddress a) of
                    Inl e \<Rightarrow> (Inl e, w1)
                  | Inr fa \<Rightarrow>
                      (case create_contract h ''NovelCollection''
                              (collection_constructorArguments a fa) w1 of
                         (Inl e, w2) \<Rightarrow> (Inl e, w2)
                       | (Inr addr, w2) \<Rightarrow>
                           (let path = collection_getPath h (template (collectionSymbol a)) addr
                            in case writeFileSync h path (JSON_stringify (outputObj a fa addr)) w2 of
                                 (Some e, w3) \<Rightarrow> (Inl e, w3)
                               | (None, w3) \<Rightarrow>
                                   (case enable_loop h pm addr 1 w3 of
                                      (Inl e, w4) \<Rightarrow> (Inl e, w4)
                                    | (Inr u, w4) \<Rightarrow> (Inr (path, Contract (JStr addr)), w4)))))))"

definition collection_verify ::
  "hre option \<Rightarrow> jsval \<Rightarrow> jsval \<Rightarrow> world \<Rightarrow> (error + unit) \<times> world" where
  "collection_verify H addr args w =
     (case iterate args of
        Inl e \<Rightarrow> (Inl e, w)
      | Inr xs \<Rightarrow>
          (case H of
             None \<Rightarrow> (Inl (Error ''hre is required''), w)
           | Some h \<Rightarrow>
               if \<not> truthy addr then (Inl (Error ''address is required''), w)
               else if \<not> truthy (element xs 1) then
                 (Inl (Error ''collectionSymbol is required''), w)
               else if \<not> truthy (element xs 2) then
                 (Inl (Error ''collectionSupplyCap is required''), w)
               else if \<not> truthy (element xs 4) then
                 (Inl (Error ''contractMetadataUri is required''), w)
               else if \<not> truthy (element xs 5) then
                 (Inl (Error ''forwarderAddress is required''), w)
               else if \<not> truthy (element xs 0) then
                 (Inl (Error ''collectionName is required''), w)
               else if \<not> truthy (element xs 3) then
                 (Inl (Error ''metadataProofHash is required''), w)
               else
                 (case external h
                         (RunVerify addr
                            (JArr [element xs 0, element xs 1, element xs 2,
                                   element xs 3, element xs 4, element xs 5])) w of
                    (None, w1) \<Rightarrow> (Inr (), w1)
                  | (Some e, w1) \<Rightarrow> (Inl e, w1))))"

text \<open>
  Lines 192 to 194 and 209 to 211: both tasks parse the record file and take
  \<^verbatim>\<open>{ address, constructorArguments }\<close> from it.
\<close>

definition read_json :: "world \<Rightarrow> string \<Rightarrow> error + jsval" where
  "read_json w path =
     (case readFileSync w path of
        Inl e \<Rightarrow> Inl e
      | Inr json \<Rightarrow> JSON_parse json)"

definition load_record :: "world \<Rightarrow> string \<Rightarrow> error + jsval \<times> jsval" where
  "load_record w path =
     (case read_json w path of
        Inl e \<Rightarrow> Inl e
      | Inr obj \<Rightarrow>
          (case get_prop obj ''address'' of
             Inl e \<Rightarrow> Inl e
           | Inr addr \<Rightarrow>
               (case get_prop obj ''constructorArguments'' of
                  Inl e \<Rightarrow> Inl e
                | Inr args \<Rightarrow> Inr (addr, args))))"

text \<open>The action of the task \<^verbatim>\<open>verify-collection\<close>.\<close>

definition verify_collection_task ::
  "hre \<Rightarrow> string \<Rightarrow> world \<Rightarrow> (error + unit) \<times> world" where
  "verify_collection_task h path w =
     (case load_record w path of
        Inl e \<Rightarrow> (Inl e, w)
      | Inr (addr, args) \<Rightarrow> collection_verify (Some h) addr args w)"

section \<open>Auxiliary definitions for the statements\<close>


text \<open>The durations of the timers in a log, in order.\<close>

fun timeouts :: "event list \<Rightarrow> nat list" where
  "timeouts [] = []"
| "timeouts (SetTimeout ms # evs) = ms # timeouts evs"
| "timeouts (ev # evs) = timeouts evs"

text \<open>The invocations of the enable action in a log.\<close>

fun enable_calls :: "event list \<Rightarrow> nat" where
  "enable_calls [] = 0"
| "enable_calls (EnableContract p x # evs) = Suc (enable_calls evs)"
| "enable_calls (ev # evs) = enable_calls evs"

text \<open>A required parameter is missing when the check \<^verbatim>\<open>if (!x) throw ...\<close> on it fires.\<close>

definition paymaster_parameter_missing :: "string option \<Rightarrow> string option \<Rightarrow> bool" where
  "paymaster_parameter_missing relay forwarder =
     (\<not> truthy (of_string relay) \<or> \<not> truthy (of_string forwarder))"

definition collection_parameter_missing :: "collection_args \<Rightarrow> bool" where
  "collection_parameter_missing a =
     (\<not> truthy (of_string (collectionSymbol a)) \<or> \<not> truthy (of_number (collectionSupplyCap a))
      \<or> \<not> truthy (of_string (contractMetadataUri a)))"

definition configuration_errors :: "error set" where
  "configuration_errors =
     Error ` {''hre is required'', ''Relay hub address is required'',
              ''GSN trusted forwarder address is required'', ''collectionSymbol is required'',
              ''collectionSupplyCap is required'', ''contractMetadataUri is required''}"

subsection \<open>A concrete environment\<close>

text \<open>
  A provider whose enable call fails on every invocation and whose deployments succeed, the
  first at one address and every later one at another; every path can be written.
\<close>

definition failing_enable :: "event list \<Rightarrow> event \<Rightarrow> error option" where
  "failing_enable hist ev =
     (case ev of EnableContract p x \<Rightarrow> Some (Error ''network timeout'') | _ \<Rightarrow> None)"

definition fresh_address :: "event list \<Rightarrow> string \<Rightarrow> jsval list \<Rightarrow> error + string" where
  "fresh_address hist name args = Inr (if hist = [] then ''0xA1'' else ''0xB2'')"

definition example_info :: network_info where
  "example_info =
     \<lparr>RELAY_HUB_ADDRESS = Some ''0xHub'', GSN_TRUSTED_FORWARDER_ADDRESS = Some ''0xForwarder''\<rparr>"

definition example_hre :: hre where
  "example_hre =
     \<lparr>network_name = ''mumbai'',
      paymasterInfo = [''mumbai'' \<mapsto> example_info],
      dirname = ''/repo/scripts'',
      run_ext = failing_enable,
      create_ext = fresh_address,
      write_ext = (\<lambda>path. None)\<rparr>"

definition example_args :: collection_args where
  "example_args =
     \<lparr>collectionName = Some ''Name'',
      collectionSymbol = Some ''SYM'',
      collectionSupplyCap = Some (Num 1000),
      contractMetadataUri = Some ''uri'',
      metadataProofHash = None,
      paymaster = Some (Contract (JStr ''0xPaymaster'')),
      forwarderAddress = None\<rparr>"

definition empty_world :: world where
  "empty_world = \<lparr>fs = Map.empty, log = []\<rparr>"

text \<open>A verification service that answers every request with "already verified".\<close>

definition already_verified :: "event list \<Rightarrow> event \<Rightarrow> error option" where
  "already_verified hist ev =
     (case ev of
        RunVerify a args \<Rightarrow> Some (Error ''Failed to verify. Reason: Already Verified'')
      | _ \<Rightarrow> None)"

section \<open>Paths of the record files\<close>












section \<open>The enable loop and the deployment\<close>

lemma enable_loop_done: "\<not> c < 2 \<Longrightarrow> enable_loop h pm addr c w = (Inr (), w)"
  by (subst enable_loop.simps) simp

lemma enable_loop_1:
  "enable_loop h pm addr 1 w =
     (Inr (),
      w\<lparr>log := log w @
         (case run_ext h (log w) (EnableContract (address_of pm) addr) of
            None \<Rightarrow> [EnableContract (address_of pm) addr]
          | Some e \<Rightarrow> [EnableContract (address_of pm) addr, SetTimeout 1000])\<rparr>)"
  by (subst enable_loop.simps)
     (simp add: external_def setTimeout_def enable_loop_done split: option.splits)

lemma enable_loop_returns: "fst (enable_loop h pm addr c w) = Inr ()"
proof (induction h pm addr c w rule: enable_loop.induct)
  case (1 h pm addr c w)
  show ?case
  proof (cases "c < 2")
    case False
    then show ?thesis by (simp add: enable_loop_done)
  next
    case True
    obtain r w1 where ext: "external h (EnableContract (address_of pm) addr) w = (r, w1)"
      by (cases "external h (EnableContract (address_of pm) addr) w")
    show ?thesis
    proof (cases r)
      case None
      with True ext "1.IH"(1) show ?thesis
        by (subst enable_loop.simps) simp
    next
      case (Some e)
      with True ext "1.IH"(2) show ?thesis
        by (subst enable_loop.simps) simp
    qed
  qed
qed

lemma external_fs: "fs (snd (external h ev w)) = fs w"
  by (simp add: external_def)

lemma enable_loop_fs: "fs (snd (enable_loop h pm addr c w)) = fs w"
proof (induction h pm addr c w rule: enable_loop.induct)
  case (1 h pm addr c w)
  show ?case
  proof (cases "c < 2")
    case False
    then show ?thesis by (simp add: enable_loop_done)
  next
    case True
    obtain r w1 where ext: "external h (EnableContract (address_of pm) addr) w = (r, w1)"
      by (cases "external h (EnableContract (address_of pm) addr) w")
    then have w1: "fs w1 = fs w" using external_fs [of h "EnableContract (address_of pm) addr" w] by simp
    show ?thesis
    proof (cases r)
      case None
      with True ext w1 "1.IH"(1) show ?thesis
        by (subst enable_loop.simps) simp
    next
      case (Some e)
      with True ext w1 "1.IH"(2) show ?thesis
        by (subst enable_loop.simps) (simp add: setTimeout_def)
    qed
  qed
qed

lemma enable_loop_result:
  "\<exists>w'. enable_loop h pm addr c w = (Inr (), w') \<and> fs w' = fs w"
  using enable_loop_returns [of h pm addr c w] enable_loop_fs [of h pm addr c w]
  by (cases "enable_loop h pm addr c w") auto

lemma resolve_paymaster_fs: "resolve_paymaster h pm w = (r, w1) \<Longrightarrow> fs w1 = fs w"
  by (auto simp: resolve_paymaster_def external_def split: option.splits sum.splits)

lemma create_contract_fs: "create_contract h n args w = (r, w1) \<Longrightarrow> fs w1 = fs w"
  by (auto simp: create_contract_def)


lemma enable_calls_append: "enable_calls (xs @ ys) = enable_calls xs + enable_calls ys"
  by (induction xs rule: enable_calls.induct) auto

lemma timeouts_append: "timeouts (xs @ ys) = timeouts xs @ timeouts ys"
  by (induction xs rule: timeouts.induct) auto

lemma resolve_paymaster_enable_calls:
  "resolve_paymaster h pm w = (r, w1) \<Longrightarrow> enable_calls (log w1) = enable_calls (log w)"
  by (auto simp: resolve_paymaster_def external_def enable_calls_append
      split: option.splits sum.splits)

lemma create_contract_enable_calls:
  "create_contract h n args w = (r, w1) \<Longrightarrow> enable_calls (log w1) = enable_calls (log w)"
  by (auto simp: create_contract_def enable_calls_append)

lemma writeFileSync_None:
  "writeFileSync h p c w = (None, w1) \<Longrightarrow>
     write_ext h p = None \<and> fs w1 = (fs w)(p \<mapsto> c) \<and> log w1 = log w"
  by (auto simp: writeFileSync_def split: option.splits)

lemma writeFileSync_Some: "writeFileSync h p c w = (Some e, w1) \<Longrightarrow> w1 = w"
  by (auto simp: writeFileSync_def split: option.splits)

lemma collection_deploy_success:
  assumes "collection_deploy H a w = (Inr (path, c), w')"
  shows "\<exists>h fa addr. H = Some h
           \<and> truthy (of_string (collectionSymbol a))
           \<and> truthy (of_number (collectionSupplyCap a))
           \<and> truthy (of_string (contractMetadataUri a))
           \<and> resolve_forwarder h (forwarderAddress a) = Inr fa
           \<and> path = collection_getPath h (template (collectionSymbol a)) addr
           \<and> c = Contract (JStr addr)
           \<and> fs w' = (fs w)(path \<mapsto> JSON_stringify (outputObj a fa addr))"
proof (cases H)
  case None
  with assms show ?thesis by (simp add: collection_deploy_def)
next
  case (Some h)
  have checks: "truthy (of_string (collectionSymbol a))" "truthy (of_number (collectionSupplyCap a))"
    "truthy (of_string (contractMetadataUri a))"
    using assms Some by (auto simp: collection_deploy_def split: if_splits)
  obtain r1 w1 where rp: "resolve_paymaster h (paymaster a) w = (r1, w1)"
    by (cases "resolve_paymaster h (paymaster a) w")
  then have fs1: "fs w1 = fs w" by (rule resolve_paymaster_fs)
  show ?thesis
  proof (cases r1)
    case (Inl e)
    with assms Some checks rp show ?thesis by (simp add: collection_deploy_def)
  next
    case (Inr pm)
    show ?thesis
    proof (cases "resolve_forwarder h (forwarderAddress a)")
      case (Inl e)
      with assms Some checks rp Inr show ?thesis by (simp add: collection_deploy_def)
    next
      case fwd: (Inr fa)
      obtain r2 w2 where cc: "create_contract h ''NovelCollection''
                                (collection_constructorArguments a fa) w1 = (r2, w2)"
        by (cases "create_contract h ''NovelCollection'' (collection_constructorArguments a fa) w1")
      then have fs2: "fs w2 = fs w" using create_contract_fs fs1 by metis
      show ?thesis
      proof (cases r2)
        case (Inl e)
        with assms Some checks rp Inr fwd cc show ?thesis by (simp add: collection_deploy_def)
      next
        case addr: (Inr addr)
        define p where "p = collection_getPath h (template (collectionSymbol a)) addr"
        obtain r3 w3 where wr:
          "writeFileSync h p (JSON_stringify (outputObj a fa addr)) w2 = (r3, w3)"
          by (cases "writeFileSync h p (JSON_stringify (outputObj a fa addr)) w2")
        show ?thesis
        proof (cases r3)
          case (Some e)
          with assms \<open>H = Some h\<close> checks rp Inr fwd cc addr wr show ?thesis
            by (simp add: collection_deploy_def p_def Let_def)
        next
          case None
          with wr have fs3: "fs w3 = (fs w2)(p \<mapsto> JSON_stringify (outputObj a fa addr))"
            using writeFileSync_None by blast
          obtain w4 where loop: "enable_loop h pm addr 1 w3 = (Inr (), w4)" and fs4: "fs w4 = fs w3"
            using enable_loop_result by blast
          have "collection_deploy H a w = (Inr (p, Contract (JStr addr)), w4)"
            using \<open>H = Some h\<close> checks rp Inr fwd cc addr wr None loop
            by (simp add: collection_deploy_def p_def Let_def)
          with assms have "path = p" "c = Contract (JStr addr)" "w' = w4" by simp_all
          moreover have "fs w4 = (fs w)(p \<mapsto> JSON_stringify (outputObj a fa addr))"
            using fs4 fs3 fs2 by simp
          ultimately show ?thesis using \<open>H = Some h\<close> checks fwd p_def by blast
        qed
      qed
    qed
  qed
qed

text \<open>When \<^verbatim>\<open>deploy\<close> throws, no file has been written and no enable call has been made.\<close>

lemma collection_deploy_failure:
  assumes "collection_deploy H a w = (Inl e, w')"
  shows "fs w' = fs w \<and> enable_calls (log w') = enable_calls (log w)"
proof (cases H)
  case None
  with assms show ?thesis by (simp add: collection_deploy_def)
next
  case (Some h)
  show ?thesis
  proof (cases "truthy (of_string (collectionSymbol a)) \<and> truthy (of_number (collectionSupplyCap a))
                 \<and> truthy (of_string (contractMetadataUri a))")
    case False
    with assms Some show ?thesis by (auto simp: collection_deploy_def split: if_splits)
  next
    case True
    obtain r1 w1 where rp: "resolve_paymaster h (paymaster a) w = (r1, w1)"
      by (cases "resolve_paymaster h (paymaster a) w")
    then have s1: "fs w1 = fs w" "enable_calls (log w1) = enable_calls (log w)"
      using resolve_paymaster_fs resolve_paymaster_enable_calls by blast+
    show ?thesis
    proof (cases r1)
      case (Inl e1)
      with assms Some True rp s1 show ?thesis by (simp add: collection_deploy_def)
    next
      case (Inr pm)
      show ?thesis
      proof (cases "resolve_forwarder h (forwarderAddress a)")
        case (Inl e2)
        with assms Some True rp s1 Inr show ?thesis by (simp add: collection_deploy_def)
      next
        case fwd: (Inr fa)
        obtain r2 w2 where cc: "create_contract h ''NovelCollection''
                                  (collection_constructorArguments a fa) w1 = (r2, w2)"
          by (cases "create_contract h ''NovelCollection'' (collection_constructorArguments a fa) w1")
        then have s2: "fs w2 = fs w" "enable_calls (log w2) = enable_calls (log w)"
          using create_contract_fs create_contract_enable_calls s1 by metis+
        show ?thesis
        proof (cases r2)
          case (Inl e3)
          with assms Some True rp Inr fwd cc s2 show ?thesis by (simp add: collection_deploy_def)
        next
          case addr: (Inr addr)
          define p where "p = collection_getPath h (template (collectionSymbol a)) addr"
          obtain r3 w3 where wr:
            "writeFileSync h p (JSON_stringify (outputObj a fa addr)) w2 = (r3, w3)"
            by (cases "writeFileSync h p (JSON_stringify (outputObj a fa addr)) w2")
          show ?thesis
          proof (cases r3)
            case (Some e4)
            with wr have "w3 = w2" using writeFileSync_Some by blast
            with assms \<open>H = Some h\<close> True rp Inr fwd cc addr wr Some s2 show ?thesis
              by (simp add: collection_deploy_def p_def Let_def)
          next
            case None
            obtain w4 where loop: "enable_loop h pm addr 1 w3 = (Inr (), w4)"
              using enable_loop_result by blast
            with assms \<open>H = Some h\<close> True rp Inr fwd cc addr wr None show ?thesis
              by (simp add: collection_deploy_def p_def Let_def)
          qed
        qed
      qed
    qed
  qed
qed

lemma truthy_of_string: "truthy (of_string s) \<Longrightarrow> \<exists>t. s = Some t \<and> t \<noteq> []"
  by (cases s) (auto simp: of_string_def)

lemma truthy_of_number:
  assumes "truthy (of_number n)"
  shows "(\<exists>k. n = Some (Num k) \<and> k \<noteq> 0) \<or> n = Some Infinity \<or> n = Some NegInfinity"
proof (cases n)
  case None
  with assms show ?thesis by (simp add: of_number_def)
next
  case (Some m)
  with assms show ?thesis by (cases m) (auto simp: of_number_def)
qed

text \<open>
  What is written is what was recorded exactly when nothing in it is \<^verbatim>\<open>undefined\<close> or
  infinite.  After the checks of \<^verbatim>\<open>deploy\<close> that leaves the name, the forwarder address and
  the supply cap.
\<close>

lemma json_value_arguments:
  assumes "truthy (of_string (collectionSymbol a))" "truthy (of_number (collectionSupplyCap a))"
    "truthy (of_string (contractMetadataUri a))"
  shows "(map json_value (collection_constructorArguments a fa) = collection_constructorArguments a fa)
         = (collectionName a \<noteq> None \<and> fa \<noteq> None
            \<and> collectionSupplyCap a \<noteq> Some Infinity \<and> collectionSupplyCap a \<noteq> Some NegInfinity)"
  using truthy_of_string [OF assms(1)] truthy_of_number [OF assms(2)] truthy_of_string [OF assms(3)]
  by (cases "collectionName a"; cases fa)
     (auto simp: collection_constructorArguments_def of_string_def of_number_def)

lemma json_value_outputObj:
  assumes "truthy (of_string (collectionSymbol a))" "truthy (of_number (collectionSupplyCap a))"
    "truthy (of_string (contractMetadataUri a))"
  shows "(json_value (outputObj a fa addr) = outputObj a fa addr)
         = (collectionName a \<noteq> None \<and> fa \<noteq> None
            \<and> collectionSupplyCap a \<noteq> Some Infinity \<and> collectionSupplyCap a \<noteq> Some NegInfinity)"
  using truthy_of_string [OF assms(1)] truthy_of_number [OF assms(2)] truthy_of_string [OF assms(3)]
  by (cases "collectionName a"; cases fa)
     (auto simp: outputObj_def collection_constructorArguments_def of_string_def of_number_def)

lemma paymaster_verify_fs: "paymaster_verify h addr args w = (r, w') \<Longrightarrow> fs w' = fs w"
  by (auto simp: paymaster_verify_def external_def split: sum.splits option.splits if_splits)

lemma paymaster_deploy_success:
  assumes "paymaster_deploy H relay forwarder w = (Inr out, w1)"
  shows "fs w1 = fs w \<and> json_value (output_json out) = output_json out"
proof -
  from assms obtain h where H: "H = Some h"
    by (cases H) (auto simp: paymaster_deploy_def)
  from assms H have t: "truthy (of_string relay)" "truthy (of_string forwarder)"
    by (auto simp: paymaster_deploy_def split: if_splits)
  from truthy_of_string [OF t(1)] truthy_of_string [OF t(2)] assms H show ?thesis
    by (auto simp: paymaster_deploy_def create_contract_def output_json_def of_string_def
        split: sum.splits)
qed


section \<open>Keys of distinct deployments\<close>







section \<open>The concrete environment, evaluated\<close>

lemma example_paths:
  "paymaster_getPath example_hre = ''/repo/paymaster.mumbai.json''"
  "collection_getPath example_hre ''SYM'' ''0xA1'' = ''/repo/collection.SYM.0xA1.mumbai.json''"
  "collection_getPath example_hre ''SYM'' ''0xB2'' = ''/repo/collection.SYM.0xB2.mumbai.json''"
  by (simp_all add: paymaster_getPath_def collection_getPath_def example_hre_def join_def
      normalize_def normalizeString_def normalizeStep_def)

lemma example_hre_write: "write_ext example_hre path = None"
  by (simp add: example_hre_def)

lemma example_hre_deploy_from:
  assumes "collectionSymbol a = Some ''SYM''" "truthy (of_number (collectionSupplyCap a))"
    "contractMetadataUri a = Some ''uri''" "paymaster a = Some (Contract (JStr ''0xPaymaster''))"
    "forwarderAddress a = None"
    and "x = (if log w = [] then ''0xA1'' else ''0xB2'')"
  shows "collection_deploy (Some example_hre) a w =
     (Inr (collection_getPath example_hre ''SYM'' x, Contract (JStr x)),
      \<lparr>fs = (fs w)(collection_getPath example_hre ''SYM'' x \<mapsto>
                JSON_stringify (outputObj a (Some ''0xForwarder'') x)),
       log = log w @ [Create ''NovelCollection'' (collection_constructorArguments a (Some ''0xForwarder'')),
              EnableContract (JStr ''0xPaymaster'') x, SetTimeout 1000]\<rparr>)"
proof -
  have fwd: "resolve_forwarder example_hre None = Inr (Some ''0xForwarder'')"
    by (simp add: resolve_forwarder_def of_string_def example_hre_def example_info_def)
  have pm: "resolve_paymaster example_hre (Some (Contract (JStr ''0xPaymaster''))) w
              = (Inr (Contract (JStr ''0xPaymaster'')), w)"
    by (simp add: resolve_paymaster_def)
  have cc: "create_contract example_hre ''NovelCollection''
              (collection_constructorArguments a (Some ''0xForwarder'')) w
            = (Inr x,
               w\<lparr>log := log w @ [Create ''NovelCollection''
                         (collection_constructorArguments a (Some ''0xForwarder''))]\<rparr>)"
    by (simp add: create_contract_def example_hre_def fresh_address_def assms(6))
  have run: "\<And>hist. run_ext example_hre hist (EnableContract (JStr ''0xPaymaster'') x)
               = Some (Error ''network timeout'')"
    by (simp add: example_hre_def failing_enable_def)
  show ?thesis
    unfolding collection_deploy_def
    by (simp add: assms(1-5) of_string_def pm fwd cc template_def
        writeFileSync_def example_hre_write enable_loop_1 run Let_def del: One_nat_def)
qed

lemma example_deploy:
  "collection_deploy (Some example_hre) example_args empty_world =
     (Inr (''/repo/collection.SYM.0xA1.mumbai.json'', Contract (JStr ''0xA1'')),
      \<lparr>fs = [''/repo/collection.SYM.0xA1.mumbai.json'' \<mapsto>
                JSON_stringify (outputObj example_args (Some ''0xForwarder'') ''0xA1'')],
       log = [Create ''NovelCollection''
                (collection_constructorArguments example_args (Some ''0xForwarder'')),
              EnableContract (JStr ''0xPaymaster'') ''0xA1'', SetTimeout 1000]\<rparr>)"
  using example_hre_deploy_from [of example_args "''0xA1''" empty_world]
  by (simp add: example_args_def empty_world_def example_paths of_number_def)

lemma example_hre_paymaster_task_from:
  assumes "x = (if log w = [] then ''0xA1'' else ''0xB2'')"
  shows "deploy_paymaster_task example_hre None w =
     (Inr (),
      \<lparr>fs = (fs w)(''/repo/paymaster.mumbai.json'' \<mapsto>
                JSON_stringify (output_json \<lparr>address = x,
                  constructorArguments = [JStr ''0xHub'', JStr ''0xForwarder'']\<rparr>)),
       log = log w @ [Create ''NovelPaymaster'' [JStr ''0xHub'', JStr ''0xForwarder'']]\<rparr>)"
proof -
  have info: "paymasterInfo example_hre (network_name example_hre) = Some example_info"
    by (simp add: example_hre_def)
  have pd: "paymaster_deploy (Some example_hre) (Some ''0xHub'') (Some ''0xForwarder'') w
            = (Inr \<lparr>address = x, constructorArguments = [JStr ''0xHub'', JStr ''0xForwarder'']\<rparr>,
               w\<lparr>log := log w @ [Create ''NovelPaymaster'' [JStr ''0xHub'', JStr ''0xForwarder'']]\<rparr>)"
    by (simp add: paymaster_deploy_def of_string_def create_contract_def example_hre_def
        fresh_address_def assms)
  show ?thesis
    unfolding deploy_paymaster_task_def info
    by (simp add: example_info_def pd example_paths of_string_def writeFileSync_def
        example_hre_write)
qed

lemma example_paymaster_task:
  "deploy_paymaster_task example_hre None empty_world =
     (Inr (),
      \<lparr>fs = [''/repo/paymaster.mumbai.json'' \<mapsto>
                JSON_stringify (output_json \<lparr>address = ''0xA1'',
                  constructorArguments = [JStr ''0xHub'', JStr ''0xForwarder'']\<rparr>)],
       log = [Create ''NovelPaymaster'' [JStr ''0xHub'', JStr ''0xForwarder'']]\<rparr>)"
  using example_hre_paymaster_task_from [of "''0xA1''" empty_world]
  by (simp add: empty_world_def)

lemma example_load_record:
  "load_record (snd (collection_deploy (Some example_hre) example_args empty_world))
     ''/repo/collection.SYM.0xA1.mumbai.json''
   = Inr (JStr ''0xA1'',
          JArr [JStr ''Name'', JStr ''SYM'', JNum (Num 1000), JStr [], JStr ''uri'',
                JStr ''0xForwarder''])"
  unfolding example_deploy
  by (simp add: load_record_def read_json_def readFileSync_def
        JSON_stringify_def JSON_parse_def outputObj_def collection_constructorArguments_def
        example_args_def of_string_def of_number_def default_hash_def get_prop_def)

section \<open>What a record file holds\<close>

lemma recorded_address:
  "get_prop (json_value (outputObj a fa x)) ''address'' = Inr (JStr x)"
  by (simp add: outputObj_def get_prop_def)

lemma recorded_hash:
  "get_prop (json_value (outputObj a fa x)) ''metadataProofHash''
     = Inr (JStr (default_hash (metadataProofHash a)))"
  by (cases "collectionName a"; cases "collectionSymbol a"; cases "collectionSupplyCap a")
     (simp_all add: outputObj_def get_prop_def of_string_def of_number_def)

lemma recorded_arguments:
  "get_prop (json_value (outputObj a fa x)) ''constructorArguments''
     = Inr (JArr (map json_value (collection_constructorArguments a fa)))"
  by (cases "collectionName a"; cases "collectionSymbol a"; cases "collectionSupplyCap a";
      cases "contractMetadataUri a"; cases fa)
     (simp_all add: outputObj_def get_prop_def of_string_def of_number_def)

text \<open>Whenever \<^verbatim>\<open>deploy\<close> made an enable call, it returns normally and the record is on disk.\<close>

lemma enable_attempt_keeps_record:
  assumes "collection_deploy H a w = (r, w')"
    and "enable_calls (log w') \<noteq> enable_calls (log w)"
  shows "\<exists>h fa addr. H = Some h
           \<and> r = Inr (collection_getPath h (template (collectionSymbol a)) addr, Contract (JStr addr))
           \<and> fs w' = (fs w)(collection_getPath h (template (collectionSymbol a)) addr
                            \<mapsto> JSON_stringify (outputObj a fa addr))"
proof (cases r)
  case (Inl e)
  with assms collection_deploy_failure show ?thesis by blast
next
  case (Inr pc)
  obtain path c where "pc = (path, c)" by (cases pc)
  with assms(1) Inr collection_deploy_success [of H a w path c w'] show ?thesis by blast
qed

section \<open>Claims\<close>


subsection \<open>C8: a missing required parameter fails fast\<close>

lemma paymaster_deploy_missing:
  "paymaster_parameter_missing relay forwarder \<Longrightarrow>
     \<exists>e \<in> configuration_errors. paymaster_deploy H relay forwarder w = (Inl e, w)"
  by (auto simp: paymaster_parameter_missing_def paymaster_deploy_def configuration_errors_def
      split: option.splits)

lemma collection_deploy_missing:
  "collection_parameter_missing a \<Longrightarrow>
     \<exists>e \<in> configuration_errors. collection_deploy H a w = (Inl e, w)"
  by (auto simp: collection_parameter_missing_def collection_deploy_def configuration_errors_def
      split: option.splits)

lemma deploy_paymaster_task_missing:
  assumes "paymasterInfo h (network_name h) = Some info"
    and "paymaster_parameter_missing (RELAY_HUB_ADDRESS info) (GSN_TRUSTED_FORWARDER_ADDRESS info)"
  shows "\<exists>e \<in> configuration_errors. deploy_paymaster_task h v w = (Inl e, w)"
  using paymaster_deploy_missing [OF assms(2), of "Some h" w] assms(1)
  by (auto simp: deploy_paymaster_task_def)

text \<open>
  Claim C8.  When a required parameter of a deploy operation is missing (the relay hub or the
  trusted forwarder address of the paymaster; the symbol, the supply cap or the metadata URI
  of the collection), the operation throws one of the \<^verbatim>\<open>... is required\<close> errors and the
  world is the one it started from: no provider call has been logged and no file written.
  The same holds for the task \<^verbatim>\<open>deploy-paymaster\<close>, which writes the paymaster's record only
  after \<^verbatim>\<open>deploy\<close> has returned.
\<close>

theorem deploy_missing_parameter_fails_fast:
  "(paymaster_parameter_missing relay forwarder \<longrightarrow>
      (\<exists>e \<in> configuration_errors. paymaster_deploy H relay forwarder w = (Inl e, w)))
   \<and> (paymasterInfo h (network_name h) = Some info
        \<and> paymaster_parameter_missing (RELAY_HUB_ADDRESS info) (GSN_TRUSTED_FORWARDER_ADDRESS info) \<longrightarrow>
      (\<exists>e \<in> configuration_errors. deploy_paymaster_task h v w = (Inl e, w)))
   \<and> (collection_parameter_missing a \<longrightarrow>
      (\<exists>e \<in> configuration_errors. collection_deploy H a w = (Inl e, w)))"
  using paymaster_deploy_missing deploy_paymaster_task_missing collection_deploy_missing
  by blast

theorem deploy_missing_parameter_fails_fast_witness:
  "paymaster_parameter_missing None (Some ''0xForwarder'')
   \<and> paymaster_deploy (Some example_hre) None (Some ''0xForwarder'') empty_world
       = (Inl (Error ''Relay hub address is required''), empty_world)
   \<and> paymasterInfo (example_hre\<lparr>paymasterInfo := [''mumbai'' \<mapsto> example_info\<lparr>RELAY_HUB_ADDRESS := None\<rparr>]\<rparr>)
        ''mumbai'' = Some (example_info\<lparr>RELAY_HUB_ADDRESS := None\<rparr>)
   \<and> deploy_paymaster_task
        (example_hre\<lparr>paymasterInfo := [''mumbai'' \<mapsto> example_info\<lparr>RELAY_HUB_ADDRESS := None\<rparr>]\<rparr>)
        None empty_world
       = (Inl (Error ''Relay hub address is required''), empty_world)
   \<and> collection_parameter_missing (example_args\<lparr>contractMetadataUri := Some []\<rparr>)
   \<and> collection_deploy (Some example_hre) (example_args\<lparr>contractMetadataUri := Some []\<rparr>) empty_world
       = (Inl (Error ''contractMetadataUri is required''), empty_world)"
proof -
  define h where
    "h = example_hre\<lparr>paymasterInfo := [''mumbai'' \<mapsto> example_info\<lparr>RELAY_HUB_ADDRESS := None\<rparr>]\<rparr>"
  define a where "a = example_args\<lparr>contractMetadataUri := Some []\<rparr>"
  have p: "paymaster_parameter_missing None (Some ''0xForwarder'')"
    by (simp add: paymaster_parameter_missing_def of_string_def)
  have i: "paymasterInfo h (network_name h) = Some (example_info\<lparr>RELAY_HUB_ADDRESS := None\<rparr>)"
    by (simp add: h_def example_hre_def)
  have n: "network_name h = ''mumbai''"
    by (simp add: h_def example_hre_def)
  have t: "paymaster_parameter_missing (RELAY_HUB_ADDRESS (example_info\<lparr>RELAY_HUB_ADDRESS := None\<rparr>))
             (GSN_TRUSTED_FORWARDER_ADDRESS (example_info\<lparr>RELAY_HUB_ADDRESS := None\<rparr>))"
    by (simp add: paymaster_parameter_missing_def of_string_def)
  have c: "collection_parameter_missing a"
    by (simp add: a_def collection_parameter_missing_def of_string_def)
  from deploy_missing_parameter_fails_fast
         [of None "Some ''0xForwarder''" "Some example_hre" empty_world h
             "example_info\<lparr>RELAY_HUB_ADDRESS := None\<rparr>" None a] p i t c
  obtain e1 e2 e3 where
    "paymaster_deploy (Some example_hre) None (Some ''0xForwarder'') empty_world = (Inl e1, empty_world)"
    "deploy_paymaster_task h None empty_world = (Inl e2, empty_world)"
    "collection_deploy (Some example_hre) a empty_world = (Inl e3, empty_world)"
    by blast
  then have
    "paymaster_deploy (Some example_hre) None (Some ''0xForwarder'') empty_world
       = (Inl (Error ''Relay hub address is required''), empty_world)"
    "deploy_paymaster_task h None empty_world
       = (Inl (Error ''Relay hub address is required''), empty_world)"
    "collection_deploy (Some example_hre) a empty_world
       = (Inl (Error ''contractMetadataUri is required''), empty_world)"
    using i
    by (simp_all add: paymaster_deploy_def collection_deploy_def deploy_paymaster_task_def
        of_string_def of_number_def example_args_def a_def)
  then show ?thesis using p i n c unfolding h_def a_def by simp
qed

subsection \<open>C4: when a record read back is the record written\<close>

lemma collection_load_after_deploy:
  assumes "collection_deploy (Some h) a w = (Inr (path, c), w')"
  shows "\<exists>fa addr. resolve_forwarder h (forwarderAddress a) = Inr fa
           \<and> c = Contract (JStr addr)
           \<and> read_json w' path = Inr (json_value (outputObj a fa addr))
           \<and> load_record w' path
               = Inr (JStr addr, JArr (map json_value (collection_constructorArguments a fa)))
           \<and> (json_value (outputObj a fa addr) = outputObj a fa addr)
               = (collectionName a \<noteq> None \<and> fa \<noteq> None
                  \<and> collectionSupplyCap a \<noteq> Some Infinity
                  \<and> collectionSupplyCap a \<noteq> Some NegInfinity)
           \<and> (map json_value (collection_constructorArguments a fa)
                 = collection_constructorArguments a fa)
               = (collectionName a \<noteq> None \<and> fa \<noteq> None
                  \<and> collectionSupplyCap a \<noteq> Some Infinity
                  \<and> collectionSupplyCap a \<noteq> Some NegInfinity)"
proof -
  from collection_deploy_success [OF assms]
  obtain fa addr where
    checks: "truthy (of_string (collectionSymbol a))" "truthy (of_number (collectionSupplyCap a))"
      "truthy (of_string (contractMetadataUri a))"
    and fwd: "resolve_forwarder h (forwarderAddress a) = Inr fa"
    and c: "c = Contract (JStr addr)"
    and fs: "fs w' = (fs w)(path \<mapsto> JSON_stringify (outputObj a fa addr))"
    by auto
  have rj: "read_json w' path = Inr (json_value (outputObj a fa addr))"
    using fs by (simp add: read_json_def readFileSync_def JSON_stringify_def JSON_parse_def)
  have lr: "load_record w' path
              = Inr (JStr addr, JArr (map json_value (collection_constructorArguments a fa)))"
    by (simp add: load_record_def rj recorded_address recorded_arguments)
  from fwd c rj lr json_value_outputObj [OF checks, of fa addr] json_value_arguments [OF checks, of fa]
  show ?thesis by blast
qed

lemma paymaster_load_after_task:
  assumes "deploy_paymaster_task h v w = (Inr (), w')"
  shows "\<exists>info out w1.
           paymasterInfo h (network_name h) = Some info
         \<and> paymaster_deploy (Some h) (RELAY_HUB_ADDRESS info) (GSN_TRUSTED_FORWARDER_ADDRESS info) w
             = (Inr out, w1)
         \<and> read_json w' (paymaster_getPath h) = Inr (output_json out)
         \<and> load_record w' (paymaster_getPath h)
             = Inr (JStr (address out), JArr (constructorArguments out))"
proof -
  from assms obtain info where info: "paymasterInfo h (network_name h) = Some info"
    by (cases "paymasterInfo h (network_name h)") (auto simp: deploy_paymaster_task_def)
  obtain r w1 where pd:
    "paymaster_deploy (Some h) (RELAY_HUB_ADDRESS info) (GSN_TRUSTED_FORWARDER_ADDRESS info) w = (r, w1)"
    by (cases "paymaster_deploy (Some h) (RELAY_HUB_ADDRESS info) (GSN_TRUSTED_FORWARDER_ADDRESS info) w")
  from assms info pd obtain out where out: "r = Inr out"
    by (cases r) (auto simp: deploy_paymaster_task_def)
  obtain r2 w2 where wr:
    "writeFileSync h (paymaster_getPath h) (JSON_stringify (output_json out)) w1 = (r2, w2)"
    by (cases "writeFileSync h (paymaster_getPath h) (JSON_stringify (output_json out)) w1")
  from assms info pd out wr have r2: "r2 = None"
    by (cases r2) (auto simp: deploy_paymaster_task_def)
  with wr have fs2: "fs w2 (paymaster_getPath h) = Some (JSON_stringify (output_json out))"
    using writeFileSync_None by fastforce
  have "fs w' = fs w2"
  proof (cases "truthy (of_string v)")
    case False
    with assms info pd out wr r2 show ?thesis
      by (simp add: deploy_paymaster_task_def)
  next
    case True
    obtain r3 w3 where pv: "paymaster_verify h (JStr (address out)) (JArr (constructorArguments out)) w2
                              = (r3, w3)"
      by (cases "paymaster_verify h (JStr (address out)) (JArr (constructorArguments out)) w2")
    with assms info pd out wr r2 True have "w' = w3"
      by (auto simp: deploy_paymaster_task_def split: sum.splits)
    with paymaster_verify_fs [OF pv] show ?thesis by simp
  qed
  with fs2 have "fs w' (paymaster_getPath h) = Some (JSON_stringify (output_json out))"
    by simp
  moreover have "json_value (output_json out) = output_json out"
    using paymaster_deploy_success pd out by blast
  ultimately have rj: "read_json w' (paymaster_getPath h) = Inr (output_json out)"
    by (simp add: read_json_def readFileSync_def JSON_stringify_def JSON_parse_def)
  have "load_record w' (paymaster_getPath h) = Inr (JStr (address out), JArr (constructorArguments out))"
    unfolding load_record_def rj by (simp add: output_json_def get_prop_def)
  with info pd out rj show ?thesis by blast
qed

text \<open>
  Claim C4, as the code has it.  After a successful deployment of a collection, parsing the
  file at the returned key gives the recorded object with every \<^verbatim>\<open>undefined\<close> property
  dropped and every \<^verbatim>\<open>undefined\<close> or infinite value replaced by \<^verbatim>\<open>null\<close>; the tasks load the
  deployed address unchanged, and the constructor arguments with the same replacements.
  What is read is the recorded object, and the loaded tuple is the recorded tuple, exactly
  when the collection name and the forwarder address are strings and the supply cap is
  finite.  The record of a paymaster always reads back as it was written.
\<close>

theorem record_round_trip_exactly_when_serializable:
  "(collection_deploy (Some h) a w = (Inr (path, c), w') \<longrightarrow>
      (\<exists>fa addr. resolve_forwarder h (forwarderAddress a) = Inr fa
         \<and> c = Contract (JStr addr)
         \<and> read_json w' path = Inr (json_value (outputObj a fa addr))
         \<and> load_record w' path
             = Inr (JStr addr, JArr (map json_value (collection_constructorArguments a fa)))
         \<and> (json_value (outputObj a fa addr) = outputObj a fa addr)
             = (collectionName a \<noteq> None \<and> fa \<noteq> None
                \<and> collectionSupplyCap a \<noteq> Some Infinity
                \<and> collectionSupplyCap a \<noteq> Some NegInfinity)
         \<and> (map json_value (collection_constructorArguments a fa)
               = collection_constructorArguments a fa)
             = (collectionName a \<noteq> None \<and> fa \<noteq> None
                \<and> collectionSupplyCap a \<noteq> Some Infinity
                \<and> collectionSupplyCap a \<noteq> Some NegInfinity)))
   \<and> (deploy_paymaster_task g v u = (Inr (), u') \<longrightarrow>
      (\<exists>info out u1.
           paymasterInfo g (network_name g) = Some info
         \<and> paymaster_deploy (Some g) (RELAY_HUB_ADDRESS info) (GSN_TRUSTED_FORWARDER_ADDRESS info) u
             = (Inr out, u1)
         \<and> read_json u' (paymaster_getPath g) = Inr (output_json out)
         \<and> load_record u' (paymaster_getPath g)
             = Inr (JStr (address out), JArr (constructorArguments out))))"
  using collection_load_after_deploy [of h a w path c w'] paymaster_load_after_task [of g v u u']
  by blast

theorem record_round_trip_exactly_when_serializable_witness:
  "load_record (snd (collection_deploy (Some example_hre) example_args empty_world))
     ''/repo/collection.SYM.0xA1.mumbai.json''
     = Inr (JStr ''0xA1'',
            JArr [JStr ''Name'', JStr ''SYM'', JNum (Num 1000), JStr [], JStr ''uri'',
                  JStr ''0xForwarder''])
   \<and> collection_constructorArguments example_args (Some ''0xForwarder'')
     = [JStr ''Name'', JStr ''SYM'', JNum (Num 1000), JStr [], JStr ''uri'', JStr ''0xForwarder'']
   \<and> load_record (snd (deploy_paymaster_task example_hre None empty_world))
       ''/repo/paymaster.mumbai.json''
     = Inr (JStr ''0xA1'', JArr [JStr ''0xHub'', JStr ''0xForwarder''])"
proof -
  have d: "collection_deploy (Some example_hre) example_args empty_world =
             (Inr (''/repo/collection.SYM.0xA1.mumbai.json'', Contract (JStr ''0xA1'')),
              snd (collection_deploy (Some example_hre) example_args empty_world))"
    by (simp add: example_deploy)
  have f: "resolve_forwarder example_hre (forwarderAddress example_args) = Inr (Some ''0xForwarder'')"
    by (simp add: resolve_forwarder_def of_string_def example_hre_def example_info_def example_args_def)
  have p: "deploy_paymaster_task example_hre None empty_world =
             (Inr (), snd (deploy_paymaster_task example_hre None empty_world))"
    by (simp add: example_paymaster_task)
  have ok: "collectionName example_args \<noteq> None"
    "collectionSupplyCap example_args \<noteq> Some Infinity"
    "collectionSupplyCap example_args \<noteq> Some NegInfinity"
    by (simp_all add: example_args_def)
  note inst = record_round_trip_exactly_when_serializable
         [of example_hre example_args empty_world
             "''/repo/collection.SYM.0xA1.mumbai.json''" "Contract (JStr ''0xA1'')"
             "snd (collection_deploy (Some example_hre) example_args empty_world)"
             example_hre None empty_world
             "snd (deploy_paymaster_task example_hre None empty_world)"]
  from inst d obtain fa addr where
    fa: "resolve_forwarder example_hre (forwarderAddress example_args) = Inr fa"
    and a: "Contract (JStr ''0xA1'') = Contract (JStr addr)"
    and c: "load_record (snd (collection_deploy (Some example_hre) example_args empty_world))
          ''/repo/collection.SYM.0xA1.mumbai.json''
        = Inr (JStr addr, JArr (map json_value (collection_constructorArguments example_args fa)))"
    and same: "(map json_value (collection_constructorArguments example_args fa)
               = collection_constructorArguments example_args fa)
             = (collectionName example_args \<noteq> None \<and> fa \<noteq> None
                \<and> collectionSupplyCap example_args \<noteq> Some Infinity
                \<and> collectionSupplyCap example_args \<noteq> Some NegInfinity)"
    by blast
  from inst p obtain info out u1 where
    i: "paymasterInfo example_hre (network_name example_hre) = Some info"
    and o: "paymaster_deploy (Some example_hre) (RELAY_HUB_ADDRESS info)
              (GSN_TRUSTED_FORWARDER_ADDRESS info) empty_world = (Inr out, u1)"
    and l: "load_record (snd (deploy_paymaster_task example_hre None empty_world))
              (paymaster_getPath example_hre)
            = Inr (JStr (address out), JArr (constructorArguments out))"
    by blast
  from fa f have fa': "fa = Some ''0xForwarder''" by simp
  with same ok have "map json_value (collection_constructorArguments example_args (Some ''0xForwarder''))
                      = collection_constructorArguments example_args (Some ''0xForwarder'')"
    by simp
  with c a fa' have c': "load_record (snd (collection_deploy (Some example_hre) example_args empty_world))
          ''/repo/collection.SYM.0xA1.mumbai.json''
        = Inr (JStr ''0xA1'', JArr (collection_constructorArguments example_args (Some ''0xForwarder'')))"
    by simp
  from i have "info = example_info" by (simp add: example_hre_def)
  with o have "out = \<lparr>address = ''0xA1'', constructorArguments = [JStr ''0xHub'', JStr ''0xForwarder'']\<rparr>"
    by (simp add: example_info_def paymaster_deploy_def of_string_def create_contract_def
        example_hre_def fresh_address_def empty_world_def)
  with c' l show ?thesis
    by (simp add: collection_constructorArguments_def example_args_def of_string_def of_number_def
        default_hash_def example_paths)
qed

text \<open>
  The claim as stated fails for a supply cap of \<^verbatim>\<open>Infinity\<close>, which \<^verbatim>\<open>parseInt\<close> returns on a
  long digit string and which passes the checks, and for an absent collection name: the
  deployment succeeds and both values are read back as \<^verbatim>\<open>null\<close>.
\<close>

theorem record_round_trip_counterexample:
  "fst (collection_deploy (Some example_hre) (example_args\<lparr>collectionSupplyCap := Some Infinity\<rparr>)
          empty_world)
     = Inr (''/repo/collection.SYM.0xA1.mumbai.json'', Contract (JStr ''0xA1''))
   \<and> collection_constructorArguments (example_args\<lparr>collectionSupplyCap := Some Infinity\<rparr>)
       (Some ''0xForwarder'')
     = [JStr ''Name'', JStr ''SYM'', JNum Infinity, JStr [], JStr ''uri'', JStr ''0xForwarder'']
   \<and> load_record
       (snd (collection_deploy (Some example_hre) (example_args\<lparr>collectionSupplyCap := Some Infinity\<rparr>)
               empty_world))
       ''/repo/collection.SYM.0xA1.mumbai.json''
     = Inr (JStr ''0xA1'',
            JArr [JStr ''Name'', JStr ''SYM'', JNull, JStr [], JStr ''uri'', JStr ''0xForwarder''])
   \<and> fst (collection_deploy (Some example_hre) (example_args\<lparr>collectionName := None\<rparr>) empty_world)
     = Inr (''/repo/collection.SYM.0xA1.mumbai.json'', Contract (JStr ''0xA1''))
   \<and> collection_constructorArguments (example_args\<lparr>collectionName := None\<rparr>) (Some ''0xForwarder'')
     = [JUndefined, JStr ''SYM'', JNum (Num 1000), JStr [], JStr ''uri'', JStr ''0xForwarder'']
   \<and> load_record
       (snd (collection_deploy (Some example_hre) (example_args\<lparr>collectionName := None\<rparr>) empty_world))
       ''/repo/collection.SYM.0xA1.mumbai.json''
     = Inr (JStr ''0xA1'',
            JArr [JNull, JStr ''SYM'', JNum (Num 1000), JStr [], JStr ''uri'', JStr ''0xForwarder''])"
proof -
  define A where "A = example_args\<lparr>collectionSupplyCap := Some Infinity\<rparr>"
  define B where "B = example_args\<lparr>collectionName := None\<rparr>"
  have dA: "collection_deploy (Some example_hre) A empty_world =
     (Inr (''/repo/collection.SYM.0xA1.mumbai.json'', Contract (JStr ''0xA1'')),
      \<lparr>fs = [''/repo/collection.SYM.0xA1.mumbai.json'' \<mapsto>
                JSON_stringify (outputObj A (Some ''0xForwarder'') ''0xA1'')],
       log = [Create ''NovelCollection'' (collection_constructorArguments A (Some ''0xForwarder'')),
              EnableContract (JStr ''0xPaymaster'') ''0xA1'', SetTimeout 1000]\<rparr>)"
    using example_hre_deploy_from [of A "''0xA1''" empty_world]
    by (simp add: A_def example_args_def empty_world_def example_paths of_number_def)
  have dB: "collection_deploy (Some example_hre) B empty_world =
     (Inr (''/repo/collection.SYM.0xA1.mumbai.json'', Contract (JStr ''0xA1'')),
      \<lparr>fs = [''/repo/collection.SYM.0xA1.mumbai.json'' \<mapsto>
                JSON_stringify (outputObj B (Some ''0xForwarder'') ''0xA1'')],
       log = [Create ''NovelCollection'' (collection_constructorArguments B (Some ''0xForwarder'')),
              EnableContract (JStr ''0xPaymaster'') ''0xA1'', SetTimeout 1000]\<rparr>)"
    using example_hre_deploy_from [of B "''0xA1''" empty_world]
    by (simp add: B_def example_args_def empty_world_def example_paths of_number_def)
  have lA: "load_record (snd (collection_deploy (Some example_hre) A empty_world))
              ''/repo/collection.SYM.0xA1.mumbai.json''
            = Inr (JStr ''0xA1'',
                   JArr [JStr ''Name'', JStr ''SYM'', JNull, JStr [], JStr ''uri'', JStr ''0xForwarder''])"
    unfolding dA
    by (simp add: load_record_def read_json_def readFileSync_def JSON_stringify_def JSON_parse_def
        recorded_address recorded_arguments)
       (simp add: A_def collection_constructorArguments_def example_args_def of_string_def
        of_number_def default_hash_def)
  have lB: "load_record (snd (collection_deploy (Some example_hre) B empty_world))
              ''/repo/collection.SYM.0xA1.mumbai.json''
            = Inr (JStr ''0xA1'',
                   JArr [JNull, JStr ''SYM'', JNum (Num 1000), JStr [], JStr ''uri'',
                         JStr ''0xForwarder''])"
    unfolding dB
    by (simp add: load_record_def read_json_def readFileSync_def JSON_stringify_def JSON_parse_def
        recorded_address recorded_arguments)
       (simp add: B_def collection_constructorArguments_def example_args_def of_string_def
        of_number_def default_hash_def)
  have cA: "collection_constructorArguments A (Some ''0xForwarder'')
     = [JStr ''Name'', JStr ''SYM'', JNum Infinity, JStr [], JStr ''uri'', JStr ''0xForwarder'']"
    by (simp add: A_def collection_constructorArguments_def example_args_def of_string_def
        of_number_def default_hash_def)
  have cB: "collection_constructorArguments B (Some ''0xForwarder'')
     = [JUndefined, JStr ''SYM'', JNum (Num 1000), JStr [], JStr ''uri'', JStr ''0xForwarder'']"
    by (simp add: B_def collection_constructorArguments_def example_args_def of_string_def
        of_number_def default_hash_def)
  from dA dB lA lB cA cB show ?thesis
    unfolding A_def B_def by simp
qed

subsection \<open>C9: a failing enable step is swallowed, the record stays\<close>


subsection \<open>C1 and C7: the enable loop makes a single attempt\<close>

text \<open>
  Started at \<open>c = 1\<close>, the loop \<^verbatim>\<open>for (let c = 1; c < 2; c++)\<close> calls the enable action once.
  When the call fails, \<open>c\<close> is not \<open>5\<close>, so the error is logged, the loop sleeps for one
  second and ends: the function returns normally.
\<close>

lemma enable_loop_single_attempt:
  "fst (enable_loop h pm addr 1 w) = Inr ()
   \<and> enable_calls (log (snd (enable_loop h pm addr 1 w))) = enable_calls (log w) + 1"
  by (simp add: enable_loop_1 enable_calls_append split: option.splits del: One_nat_def)

lemma enable_loop_single_sleep:
  "run_ext h (log w) (EnableContract (address_of pm) addr) = Some e \<Longrightarrow>
     timeouts (log (snd (enable_loop h pm addr 1 w))) = timeouts (log w) @ [1000]"
  by (simp add: enable_loop_1 timeouts_append del: One_nat_def)

text \<open>
  Claim C1, evaluated on the code.  With an enable action that fails on every invocation,
  \<^verbatim>\<open>deploy\<close> invokes it once and returns the path and the contract: no error reaches the
  caller, where the claim has five invocations and the fifth error rethrown.
\<close>

theorem enable_always_failing_is_swallowed:
  "fst (collection_deploy (Some example_hre) example_args empty_world) =
     Inr (''/repo/collection.SYM.0xA1.mumbai.json'', Contract (JStr ''0xA1''))
   \<and> enable_calls (log (snd (collection_deploy (Some example_hre) example_args empty_world))) = 1"
  by (simp add: example_deploy)

text \<open>
  Claim C7, evaluated on the code.  With the same failing action the only timer set is the
  one after the first attempt, of 1000 ms; the sleeps of 2000, 3000 and 4000 ms of the claim
  never happen.
\<close>

theorem enable_always_failing_sleeps_once:
  "timeouts (log (snd (collection_deploy (Some example_hre) example_args empty_world))) = [1000]"
  by (simp add: example_deploy)

subsection \<open>C6: "already verified" is a success for the paymaster only\<close>

lemma paymaster_verify_already_verified:
  assumes "truthy relay" "truthy forwarder"
    and "run_ext h (log w) (RunVerify addr (JArr [relay, forwarder])) = Some e"
  shows "paymaster_verify h addr (JArr [relay, forwarder]) w =
           (if includes_str (message e) ''Reason: Already Verified'' then Inr () else Inl e,
            w\<lparr>log := log w @ [RunVerify addr (JArr [relay, forwarder])]\<rparr>)"
  using assms
  by (simp add: paymaster_verify_def iterate_def element_def external_def)

text \<open>
  Claim C6, evaluated on the code.  When the verification service fails with a message that
  contains \<^verbatim>\<open>Reason: Already Verified\<close>, the paymaster's \<^verbatim>\<open>verify\<close> returns normally, while
  the collection's \<^verbatim>\<open>verify\<close>, which has no \<^verbatim>\<open>try\<close> around the call, throws that error.
\<close>

theorem collection_verify_already_verified_fails:
  "paymaster_verify (example_hre\<lparr>run_ext := already_verified\<rparr>) (JStr ''0xA1'')
     (JArr [JStr ''0xHub'', JStr ''0xForwarder'']) empty_world
     = (Inr (), \<lparr>fs = Map.empty,
                 log = [RunVerify (JStr ''0xA1'') (JArr [JStr ''0xHub'', JStr ''0xForwarder''])]\<rparr>)
   \<and> collection_verify (Some (example_hre\<lparr>run_ext := already_verified\<rparr>)) (JStr ''0xA1'')
       (JArr [JStr ''Name'', JStr ''SYM'', JNum (Num 1000), JStr ''hash'', JStr ''uri'',
              JStr ''0xForwarder'']) empty_world
     = (Inl (Error ''Failed to verify. Reason: Already Verified''),
        \<lparr>fs = Map.empty,
         log = [RunVerify (JStr ''0xA1'')
                  (JArr [JStr ''Name'', JStr ''SYM'', JNum (Num 1000), JStr ''hash'', JStr ''uri'',
                         JStr ''0xForwarder''])]\<rparr>)"
  by (simp add: paymaster_verify_def collection_verify_def iterate_def element_def external_def
      example_hre_def already_verified_def empty_world_def)

subsection \<open>C5: how loading the paymaster record fails\<close>

text \<open>
  Claim C5, as the code has it.  \<^verbatim>\<open>get(hre)\<close> without an address: no file at the key gives
  the \<^verbatim>\<open>Could not find\<close> error; a file whose JSON value is not \<^verbatim>\<open>null\<close> and has no truthy
  \<^verbatim>\<open>address\<close> gives the \<^verbatim>\<open>Could not read\<close> error; a truthy \<^verbatim>\<open>address\<close> gives a handle at
  that address.  Besides these, a file that is not JSON makes \<^verbatim>\<open>JSON.parse\<close> throw a
  \<^verbatim>\<open>SyntaxError\<close>, and a file that holds \<^verbatim>\<open>null\<close> makes the property access throw a
  \<^verbatim>\<open>TypeError\<close>.
\<close>

theorem paymaster_get_load_cases:
  "paymaster_get h None w =
     (case fs w (paymaster_getPath h) of
        None \<Rightarrow> Inl (Error ''Could not find paymaster.json - try running hardhat deploy-paymaster'')
      | Some (OtherText t) \<Rightarrow> Inl (SyntaxError ''Unexpected token in JSON'')
      | Some (JsonText v) \<Rightarrow>
          (if v = JNull then Inl (TypeError ''Cannot read properties of null'')
           else if v = JUndefined then Inl (TypeError ''Cannot read properties of undefined'')
           else
             (case get_prop v ''address'' of
                Inl e \<Rightarrow> Inl e
              | Inr a \<Rightarrow>
                  if truthy a then Inr (Contract a)
                  else Inl (Error ''Could not read paymaster.json - try running hardhat deploy-paymaster''))))"
  by (auto simp: paymaster_get_def of_string_def Let_def existsSync_def readFileSync_def JSON_parse_def
      get_prop_def split: option.splits contents.splits sum.splits jsval.splits)

text \<open>
  The claim as stated fails on a file that exists and holds \<^verbatim>\<open>null\<close>, and on one that is not
  JSON: neither of the two distinguished errors is thrown, and the load does not succeed.
\<close>

theorem paymaster_get_null_record_counterexample:
  "existsSync \<lparr>fs = [paymaster_getPath example_hre \<mapsto> JsonText JNull], log = []\<rparr>
     (paymaster_getPath example_hre)
   \<and> paymaster_get example_hre None
        \<lparr>fs = [paymaster_getPath example_hre \<mapsto> JsonText JNull], log = []\<rparr>
       = Inl (TypeError ''Cannot read properties of null'')
   \<and> existsSync \<lparr>fs = [paymaster_getPath example_hre \<mapsto> OtherText ''not json''], log = []\<rparr>
     (paymaster_getPath example_hre)
   \<and> paymaster_get example_hre None
        \<lparr>fs = [paymaster_getPath example_hre \<mapsto> OtherText ''not json''], log = []\<rparr>
       = Inl (SyntaxError ''Unexpected token in JSON'')"
  by (simp add: paymaster_get_def of_string_def Let_def existsSync_def readFileSync_def JSON_parse_def
      get_prop_def)

subsection \<open>C10: a record without a metadata proof hash cannot be verified\<close>

lemma collection_verify_without_hash:
  "collection_verify H' addr (JArr [n, s, k, JStr [], u, f]) v =
     (Inl (Error
        (if H' = None then ''hre is required''
         else if \<not> truthy addr then ''address is required''
         else if \<not> truthy s then ''collectionSymbol is required''
         else if \<not> truthy k then ''collectionSupplyCap is required''
         else if \<not> truthy u then ''contractMetadataUri is required''
         else if \<not> truthy f then ''forwarderAddress is required''
         else if \<not> truthy n then ''collectionName is required''
         else ''metadataProofHash is required'')), v)"
  by (cases H') (simp_all add: collection_verify_def iterate_def element_def)

text \<open>
  Claim C10, as the code has it.  When \<^verbatim>\<open>deploy\<close> is called without \<^verbatim>\<open>metadataProofHash\<close> and
  succeeds, the record holds the empty string both in the field \<^verbatim>\<open>metadataProofHash\<close> and
  as element 4 (index 3) of \<^verbatim>\<open>constructorArguments\<close>.  Every call of the collection's
  \<^verbatim>\<open>verify\<close> on the loaded address and arguments, in any world, throws an \<^verbatim>\<open>Error\<close> and
  leaves the world as it was, so the verification service is never called.  The error is
  that of the first check that fails: \<^verbatim>\<open>hre is required\<close> without an environment;
  \<^verbatim>\<open>address is required\<close> when the recorded address is empty;
  \<^verbatim>\<open>collectionSupplyCap is required\<close> when the supply cap was infinite (it is recorded as
  \<^verbatim>\<open>null\<close>); \<^verbatim>\<open>forwarderAddress is required\<close> when the forwarder address was absent or
  empty; \<^verbatim>\<open>collectionName is required\<close> when the name was absent or empty; and
  \<^verbatim>\<open>metadataProofHash is required\<close> in every other case.
\<close>

theorem record_without_hash_never_verifies:
  assumes "metadataProofHash a = None"
    and "collection_deploy H a w = (Inr (path, c), w')"
  shows "\<exists>h fa x obj args.
           H = Some h
         \<and> resolve_forwarder h (forwarderAddress a) = Inr fa
         \<and> c = Contract (JStr x)
         \<and> read_json w' path = Inr obj
         \<and> get_prop obj ''metadataProofHash'' = Inr (JStr [])
         \<and> load_record w' path = Inr (JStr x, JArr args)
         \<and> args = map json_value (collection_constructorArguments a fa)
         \<and> element args 3 = JStr []
         \<and> truthy (element args 2)
             = (collectionSupplyCap a \<noteq> Some Infinity \<and> collectionSupplyCap a \<noteq> Some NegInfinity)
         \<and> truthy (element args 5) = truthy (of_string fa)
         \<and> truthy (element args 0) = truthy (of_string (collectionName a))
         \<and> (\<forall>H' v. collection_verify H' (JStr x) (JArr args) v =
               (Inl (Error
                  (if H' = None then ''hre is required''
                   else if x = [] then ''address is required''
                   else if \<not> truthy (element args 2) then ''collectionSupplyCap is required''
                   else if \<not> truthy (element args 5) then ''forwarderAddress is required''
                   else if \<not> truthy (element args 0) then ''collectionName is required''
                   else ''metadataProofHash is required'')), v))"
proof -
  from collection_deploy_success [OF assms(2)]
  obtain h fa x where
    H: "H = Some h"
    and checks: "truthy (of_string (collectionSymbol a))" "truthy (of_number (collectionSupplyCap a))"
      "truthy (of_string (contractMetadataUri a))"
    and fwd: "resolve_forwarder h (forwarderAddress a) = Inr fa"
    and c: "c = Contract (JStr x)"
    and fs: "fs w' = (fs w)(path \<mapsto> JSON_stringify (outputObj a fa x))"
    by auto
  from truthy_of_string [OF checks(1)] obtain t where t: "collectionSymbol a = Some t" "t \<noteq> []"
    by blast
  from truthy_of_string [OF checks(3)] obtain u where u: "contractMetadataUri a = Some u" "u \<noteq> []"
    by blast
  define n where "n = json_value (of_string (collectionName a))"
  define k where "k = json_value (of_number (collectionSupplyCap a))"
  define f where "f = json_value (of_string fa)"
  define args where "args = map json_value (collection_constructorArguments a fa)"
  have args_eq: "args = [n, JStr t, k, JStr [], JStr u, f]"
    using assms(1) t u
    by (simp add: args_def collection_constructorArguments_def n_def k_def f_def of_string_def
        default_hash_def)
  have rj: "read_json w' path = Inr (json_value (outputObj a fa x))"
    using fs by (simp add: read_json_def readFileSync_def JSON_stringify_def JSON_parse_def)
  have hash: "get_prop (json_value (outputObj a fa x)) ''metadataProofHash'' = Inr (JStr [])"
    using assms(1) by (simp add: recorded_hash default_hash_def)
  have lr: "load_record w' path = Inr (JStr x, JArr args)"
    by (simp add: load_record_def rj recorded_address recorded_arguments args_def)
  have e: "element args 3 = JStr []" "element args 2 = k" "element args 5 = f" "element args 0 = n"
    by (simp_all add: element_def args_eq)
  have tk: "truthy (element args 2)
              = (collectionSupplyCap a \<noteq> Some Infinity \<and> collectionSupplyCap a \<noteq> Some NegInfinity)"
    unfolding e using truthy_of_number [OF checks(2)] by (auto simp: k_def of_number_def)
  have tf: "truthy (element args 5) = truthy (of_string fa)"
    unfolding e by (cases fa) (simp_all add: f_def of_string_def)
  have tn: "truthy (element args 0) = truthy (of_string (collectionName a))"
    unfolding e by (cases "collectionName a") (simp_all add: n_def of_string_def)
  have sym: "truthy (JStr t)" "truthy (JStr u)"
    using t(2) u(2) by simp_all
  have v: "collection_verify H' (JStr x) (JArr args) v =
               (Inl (Error
                  (if H' = None then ''hre is required''
                   else if x = [] then ''address is required''
                   else if \<not> truthy (element args 2) then ''collectionSupplyCap is required''
                   else if \<not> truthy (element args 5) then ''forwarderAddress is required''
                   else if \<not> truthy (element args 0) then ''collectionName is required''
                   else ''metadataProofHash is required'')), v)" for H' v
    unfolding e unfolding args_eq collection_verify_without_hash
    using sym by simp
  have "H = Some h
         \<and> resolve_forwarder h (forwarderAddress a) = Inr fa
         \<and> c = Contract (JStr x)
         \<and> read_json w' path = Inr (json_value (outputObj a fa x))
         \<and> get_prop (json_value (outputObj a fa x)) ''metadataProofHash'' = Inr (JStr [])
         \<and> load_record w' path = Inr (JStr x, JArr args)
         \<and> args = map json_value (collection_constructorArguments a fa)
         \<and> element args 3 = JStr []
         \<and> truthy (element args 2)
             = (collectionSupplyCap a \<noteq> Some Infinity \<and> collectionSupplyCap a \<noteq> Some NegInfinity)
         \<and> truthy (element args 5) = truthy (of_string fa)
         \<and> truthy (element args 0) = truthy (of_string (collectionName a))
         \<and> (\<forall>H' v. collection_verify H' (JStr x) (JArr args) v =
               (Inl (Error
                  (if H' = None then ''hre is required''
                   else if x = [] then ''address is required''
                   else if \<not> truthy (element args 2) then ''collectionSupplyCap is required''
                   else if \<not> truthy (element args 5) then ''forwarderAddress is required''
                   else if \<not> truthy (element args 0) then ''collectionName is required''
                   else ''metadataProofHash is required'')), v))"
    apply (intro conjI allI)
               apply (rule H)
              apply (rule fwd)
             apply (rule c)
            apply (rule rj)
           apply (rule hash)
          apply (rule lr)
         apply (rule args_def)
        apply (rule e(1))
       apply (rule tk)
      apply (rule tf)
     apply (rule tn)
    apply (rule v)
    done
  then show ?thesis by (intro exI)
qed

theorem record_without_hash_never_verifies_witness:
  "metadataProofHash example_args = None
   \<and> verify_collection_task example_hre ''/repo/collection.SYM.0xA1.mumbai.json''
       (snd (collection_deploy (Some example_hre) example_args empty_world))
     = (Inl (Error ''metadataProofHash is required''),
        snd (collection_deploy (Some example_hre) example_args empty_world))"
proof -
  define W where "W = snd (collection_deploy (Some example_hre) example_args empty_world)"
  have m: "metadataProofHash example_args = None" by (simp add: example_args_def)
  have d: "collection_deploy (Some example_hre) example_args empty_world
             = (Inr (''/repo/collection.SYM.0xA1.mumbai.json'', Contract (JStr ''0xA1'')), W)"
    by (simp add: W_def example_deploy)
  from record_without_hash_never_verifies [OF m d] obtain x args where
    lr: "load_record W ''/repo/collection.SYM.0xA1.mumbai.json'' = Inr (JStr x, JArr args)"
    and v: "\<forall>H' v. collection_verify H' (JStr x) (JArr args) v =
               (Inl (Error
                  (if H' = None then ''hre is required''
                   else if x = [] then ''address is required''
                   else if \<not> truthy (element args 2) then ''collectionSupplyCap is required''
                   else if \<not> truthy (element args 5) then ''forwarderAddress is required''
                   else if \<not> truthy (element args 0) then ''collectionName is required''
                   else ''metadataProofHash is required'')), v)"
    by blast
  from lr have a: "x = ''0xA1''"
    "args = [JStr ''Name'', JStr ''SYM'', JNum (Num 1000), JStr [], JStr ''uri'', JStr ''0xForwarder'']"
    by (simp_all add: W_def example_load_record)
  from v have "collection_verify (Some example_hre) (JStr x) (JArr args) W =
               (Inl (Error
                  (if Some example_hre = None then ''hre is required''
                   else if x = [] then ''address is required''
                   else if \<not> truthy (element args 2) then ''collectionSupplyCap is required''
                   else if \<not> truthy (element args 5) then ''forwarderAddress is required''
                   else if \<not> truthy (element args 0) then ''collectionName is required''
                   else ''metadataProofHash is required'')), W)"
    by blast
  then have "collection_verify (Some example_hre) (JStr x) (JArr args) W
                 = (Inl (Error ''metadataProofHash is required''), W)"
    unfolding a by (simp add: element_def)
  with lr m show ?thesis
    by (simp add: verify_collection_task_def W_def)
qed

text \<open>
  The claim as stated fails for a collection deployed with an empty name, which \<^verbatim>\<open>deploy\<close>
  accepts, and for one deployed with an infinite supply cap, recorded as \<^verbatim>\<open>null\<close>: the
  checks of the name and of the supply cap come before the check of the hash.
\<close>

theorem empty_name_record_counterexample:
  "metadataProofHash (example_args\<lparr>collectionName := Some []\<rparr>) = None
   \<and> fst (collection_deploy (Some example_hre) (example_args\<lparr>collectionName := Some []\<rparr>) empty_world)
       = Inr (''/repo/collection.SYM.0xA1.mumbai.json'', Contract (JStr ''0xA1''))
   \<and> verify_collection_task example_hre ''/repo/collection.SYM.0xA1.mumbai.json''
        (snd (collection_deploy (Some example_hre) (example_args\<lparr>collectionName := Some []\<rparr>)
                empty_world))
       = (Inl (Error ''collectionName is required''),
          snd (collection_deploy (Some example_hre) (example_args\<lparr>collectionName := Some []\<rparr>)
                 empty_world))
   \<and> metadataProofHash (example_args\<lparr>collectionSupplyCap := Some Infinity\<rparr>) = None
   \<and> fst (collection_deploy (Some example_hre) (example_args\<lparr>collectionSupplyCap := Some Infinity\<rparr>)
            empty_world)
       = Inr (''/repo/collection.SYM.0xA1.mumbai.json'', Contract (JStr ''0xA1''))
   \<and> verify_collection_task example_hre ''/repo/collection.SYM.0xA1.mumbai.json''
        (snd (collection_deploy (Some example_hre) (example_args\<lparr>collectionSupplyCap := Some Infinity\<rparr>)
                empty_world))
       = (Inl (Error ''collectionSupplyCap is required''),
          snd (collection_deploy (Some example_hre) (example_args\<lparr>collectionSupplyCap := Some Infinity\<rparr>)
                 empty_world))"
proof -
  define A where "A = example_args\<lparr>collectionName := Some []\<rparr>"
  define B where "B = example_args\<lparr>collectionSupplyCap := Some Infinity\<rparr>"
  have dB: "collection_deploy (Some example_hre) B empty_world
       = (Inr (''/repo/collection.SYM.0xA1.mumbai.json'', Contract (JStr ''0xA1'')),
          \<lparr>fs = [''/repo/collection.SYM.0xA1.mumbai.json'' \<mapsto>
                    JSON_stringify (outputObj B (Some ''0xForwarder'') ''0xA1'')],
           log = [Create ''NovelCollection'' (collection_constructorArguments B (Some ''0xForwarder'')),
                  EnableContract (JStr ''0xPaymaster'') ''0xA1'', SetTimeout 1000]\<rparr>)"
    using example_hre_deploy_from [of B "''0xA1''" empty_world]
    by (simp add: B_def example_args_def empty_world_def example_paths of_number_def)
  have argsB: "map json_value (collection_constructorArguments B (Some ''0xForwarder''))
                = [JStr ''Name'', JStr ''SYM'', JNull, JStr [], JStr ''uri'', JStr ''0xForwarder'']"
    by (simp add: B_def collection_constructorArguments_def example_args_def of_string_def
        of_number_def default_hash_def)
  have vB: "verify_collection_task example_hre ''/repo/collection.SYM.0xA1.mumbai.json''
             (snd (collection_deploy (Some example_hre) B empty_world))
           = (Inl (Error ''collectionSupplyCap is required''),
              snd (collection_deploy (Some example_hre) B empty_world))"
    unfolding dB
    by (simp add: verify_collection_task_def load_record_def read_json_def readFileSync_def
        JSON_stringify_def JSON_parse_def recorded_address recorded_arguments argsB
        collection_verify_def iterate_def element_def)
  have mB: "metadataProofHash B = None"
    by (simp add: B_def example_args_def)
  have d: "collection_deploy (Some example_hre) A empty_world
       = (Inr (''/repo/collection.SYM.0xA1.mumbai.json'', Contract (JStr ''0xA1'')),
          \<lparr>fs = [''/repo/collection.SYM.0xA1.mumbai.json'' \<mapsto>
                    JSON_stringify (outputObj A (Some ''0xForwarder'') ''0xA1'')],
           log = [Create ''NovelCollection'' (collection_constructorArguments A (Some ''0xForwarder'')),
                  EnableContract (JStr ''0xPaymaster'') ''0xA1'', SetTimeout 1000]\<rparr>)"
    using example_hre_deploy_from [of A "''0xA1''" empty_world]
    by (simp add: A_def example_args_def empty_world_def example_paths of_number_def)
  have args: "map json_value (collection_constructorArguments A (Some ''0xForwarder''))
                = [JStr [], JStr ''SYM'', JNum (Num 1000), JStr [], JStr ''uri'', JStr ''0xForwarder'']"
    by (simp add: A_def collection_constructorArguments_def example_args_def of_string_def
        of_number_def default_hash_def)
  have v: "verify_collection_task example_hre ''/repo/collection.SYM.0xA1.mumbai.json''
             (snd (collection_deploy (Some example_hre) A empty_world))
           = (Inl (Error ''collectionName is required''),
              snd (collection_deploy (Some example_hre) A empty_world))"
    unfolding d
    by (simp add: verify_collection_task_def load_record_def read_json_def readFileSync_def
        JSON_stringify_def JSON_parse_def recorded_address recorded_arguments args
        collection_verify_def iterate_def element_def)
  have "metadataProofHash A = None"
    by (simp add: A_def example_args_def)
  with d v dB vB mB show ?thesis unfolding A_def B_def by simp
qed

subsection \<open>C3: what the keys depend on\<close>




subsection \<open>C2: which deployments are written at distinct keys\<close>




end
